theory Spec2Isabelle
  imports Complex_Main "HOL-Library.AList" "HOL-Library.Multiset"
begin

section \<open>Python text as lists of code points\<close>

text \<open>
  A Python \<open>str\<close> is a sequence of code points. It is modelled by \<open>string\<close>, one \<open>char\<close>
  per code point, which covers the code points below 256. The character classes below
  are the ones \<open>str.lower\<close>, \<open>str.strip\<close>, \<open>str.split\<close> and the \<open>re\<close> module use on
  that range.
\<close>

definition code_point :: "char \<Rightarrow> nat" where
  "code_point c = of_char c"

definition is_space :: "char \<Rightarrow> bool" where
  \<comment> \<open>\<open>str.isspace\<close>, also \<open>\s\<close> in a \<open>str\<close> pattern\<close>
  "is_space c = (let n = code_point c in
     (9 \<le> n \<and> n \<le> 13) \<or> (28 \<le> n \<and> n \<le> 32) \<or> n = 133 \<or> n = 160)"

definition is_digit :: "char \<Rightarrow> bool" where
  \<comment> \<open>\<open>\d\<close> in a \<open>str\<close> pattern: the decimal digits\<close>
  "is_digit c = (let n = code_point c in 48 \<le> n \<and> n \<le> 57)"

definition is_word :: "char \<Rightarrow> bool" where
  \<comment> \<open>\<open>\w\<close> in a \<open>str\<close> pattern: \<open>str.isalnum\<close> or the underscore\<close>
  "is_word c = (let n = code_point c in
     (48 \<le> n \<and> n \<le> 57) \<or> (65 \<le> n \<and> n \<le> 90) \<or> n = 95 \<or> (97 \<le> n \<and> n \<le> 122) \<or>
     n = 170 \<or> n = 178 \<or> n = 179 \<or> n = 181 \<or> n = 185 \<or> n = 186 \<or>
     (188 \<le> n \<and> n \<le> 190) \<or> (192 \<le> n \<and> n \<le> 214) \<or> (216 \<le> n \<and> n \<le> 246) \<or>
     (248 \<le> n \<and> n \<le> 255))"

definition lower_char :: "char \<Rightarrow> char" where
  "lower_char c = (let n = code_point c in
     if (65 \<le> n \<and> n \<le> 90) \<or> (192 \<le> n \<and> n \<le> 214) \<or> (216 \<le> n \<and> n \<le> 222)
     then char_of (n + 32) else c)"

definition lower :: "string \<Rightarrow> string" where
  \<comment> \<open>\<open>str.lower()\<close>\<close>
  "lower s = map lower_char s"

definition strip :: "string \<Rightarrow> string" where
  \<comment> \<open>\<open>str.strip()\<close>\<close>
  "strip s = rev (dropWhile is_space (rev (dropWhile is_space s)))"

fun contains :: "string \<Rightarrow> string \<Rightarrow> bool" where
  \<comment> \<open>\<open>contains w s\<close> is Python's \<open>w in s\<close>\<close>
  "contains w [] = (w = [])"
| "contains w (c # cs) = (take (length w) (c # cs) = w \<or> contains w cs)"

fun join :: "string \<Rightarrow> string list \<Rightarrow> string" where
  \<comment> \<open>\<open>sep.join(xs)\<close>\<close>
  "join sep [] = []"
| "join sep [x] = x"
| "join sep (x # y # ys) = x @ sep @ join sep (y # ys)"

fun split_on :: "(char \<Rightarrow> bool) \<Rightarrow> string \<Rightarrow> string list" where
  \<comment> \<open>\<open>re.split\<close> on a one-character class: every delimiter ends a piece, empty pieces are kept\<close>
  "split_on P [] = [[]]"
| "split_on P (c # cs) =
     (if P c then [] # split_on P cs
      else (case split_on P cs of [] \<Rightarrow> [[c]] | w # ws \<Rightarrow> (c # w) # ws))"


definition py_slice_to :: "int \<Rightarrow> 'a list \<Rightarrow> 'a list" where
  \<comment> \<open>\<open>xs[:n]\<close>: a negative bound counts from the end\<close>
  "py_slice_to n xs = (if 0 \<le> n then take (nat n) xs else take (length xs - nat (- n)) xs)"

definition py_slice_from :: "int \<Rightarrow> 'a list \<Rightarrow> 'a list" where
  \<comment> \<open>\<open>xs[n:]\<close>: a negative bound counts from the end\<close>
  "py_slice_from n xs = (if 0 \<le> n then drop (nat n) xs else drop (length xs - nat (- n)) xs)"

section \<open>The regular expressions of the fact extractor\<close>

text \<open>
  The patterns of \<open>extract_key_facts\<close> use literals, alternation, optional parts, one
  capturing group and greedy repetition of a character class. \<open>rmatch r s\<close> lists the ways
  \<open>r\<close> matches a prefix of \<open>s\<close>, in the order the backtracking engine of \<open>re\<close> tries them:
  each outcome is the unread rest of \<open>s\<close> and the text of group 1 when the group took part.
\<close>

datatype cclass = Digit | Space | Word

fun in_class :: "cclass \<Rightarrow> char \<Rightarrow> bool" where
  "in_class Digit c = is_digit c"
| "in_class Space c = is_space c"
| "in_class Word c = is_word c"

datatype regex =
    Lit string
  | Plus cclass
  | Star cclass
  | Seq regex regex
  | Alt regex regex
  | Opt regex
  | Group regex

fun star_rests :: "(char \<Rightarrow> bool) \<Rightarrow> string \<Rightarrow> string list" where
  \<comment> \<open>greedy \<open>c*\<close>: the longest run first, then each shorter one\<close>
  "star_rests P [] = [[]]"
| "star_rests P (c # cs) = (if P c then star_rests P cs @ [c # cs] else [c # cs])"

fun plus_rests :: "(char \<Rightarrow> bool) \<Rightarrow> string \<Rightarrow> string list" where
  "plus_rests P [] = []"
| "plus_rests P (c # cs) = (if P c then star_rests P cs else [])"

fun rmatch :: "regex \<Rightarrow> string \<Rightarrow> (string \<times> string option) list" where
  "rmatch (Lit w) s = (if take (length w) s = w then [(drop (length w) s, None)] else [])"
| "rmatch (Plus c) s = map (\<lambda>r. (r, None)) (plus_rests (in_class c) s)"
| "rmatch (Star c) s = map (\<lambda>r. (r, None)) (star_rests (in_class c) s)"
| "rmatch (Seq a b) s =
     concat (map (\<lambda>(r1, g1).
               map (\<lambda>(r2, g2). (r2, (case g2 of None \<Rightarrow> g1 | Some x \<Rightarrow> Some x))) (rmatch b r1))
             (rmatch a s))"
| "rmatch (Alt a b) s = rmatch a s @ rmatch b s"
| "rmatch (Opt a) s = rmatch a s @ [(s, None)]"
| "rmatch (Group a) s = map (\<lambda>(r, g). (r, Some (take (length s - length r) s))) (rmatch a s)"

text \<open>A match found by scanning: the matched text, group 1, and the text after the match.\<close>

fun re_search :: "regex \<Rightarrow> string \<Rightarrow> (string \<times> string option \<times> string) option" where
  "re_search r [] =
     (case rmatch r [] of [] \<Rightarrow> None | (rest, g) # _ \<Rightarrow> Some ([], g, rest))"
| "re_search r (c # cs) =
     (case rmatch r (c # cs) of
        [] \<Rightarrow> re_search r cs
      | (rest, g) # _ \<Rightarrow> Some (take (length (c # cs) - length rest) (c # cs), g, rest))"

function re_finditer :: "regex \<Rightarrow> string \<Rightarrow> string list" where
  \<comment> \<open>the texts of the non-overlapping matches, left to right; the scan goes on after each
      match. A match that reads nothing ends the scan here (the pattern it is used with
      always reads a digit).\<close>
  "re_finditer r s =
     (case re_search r s of
        None \<Rightarrow> []
      | Some (m, g, rest) \<Rightarrow>
          (if length rest < length s then m # re_finditer r rest else [m]))"
  by pat_completeness auto
termination
  by (relation "measure (\<lambda>(r, s). length s)") auto

declare re_finditer.simps [simp del]

section \<open>The fact extractor\<close>

record CompactionConfig =
  max_tokens :: int
  min_turns_to_keep :: int
  overlap_size :: int
  summary_max_length :: int
  priority_keywords :: "string list"

definition default_keywords :: "string list" where
  "default_keywords =
     [''co2'', ''carbon'', ''emissions'', ''footprint'', ''kg'', ''tons'',
      ''vegetarian'', ''vegan'', ''meat'', ''beef'', ''chicken'',
      ''car'', ''drive'', ''bicycle'', ''transit'', ''flight'',
      ''electric'', ''solar'', ''renewable'',
      ''commit'', ''goal'', ''plan'', ''will'', ''promise'',
      ''meatless'', ''reduce'', ''switch'', ''change'',
      ''live'', ''city'', ''country'', ''home'']"

definition default_config :: CompactionConfig where
  \<comment> \<open>\<open>CompactionConfig()\<close> after \<open>__post_init__\<close>\<close>
  "default_config =
     \<lparr>max_tokens = 4000, min_turns_to_keep = 3, overlap_size = 1,
      summary_max_length = 500, priority_keywords = default_keywords\<rparr>"

definition co2_pattern :: regex where
  \<comment> \<open>\<open>(\d+(?:\.\d+)?)\s*(?:kg|tons?|tonnes?)\s*(?:co2|carbon|emissions?)\<close>\<close>
  "co2_pattern =
     Seq (Group (Seq (Plus Digit) (Opt (Seq (Lit ''.'') (Plus Digit)))))
    (Seq (Star Space)
    (Seq (Alt (Lit ''kg'')
         (Alt (Seq (Lit ''ton'') (Opt (Lit ''s'')))
              (Seq (Lit ''tonne'') (Opt (Lit ''s'')))))
    (Seq (Star Space)
         (Alt (Lit ''co2'')
         (Alt (Lit ''carbon'')
              (Seq (Lit ''emission'') (Opt (Lit ''s''))))))))"

definition commitment_words :: "string list" where
  "commitment_words = [''commit'', ''will'', ''plan to'', ''going to'', ''promise'', ''goal'']"

definition captured_words :: regex where
  \<comment> \<open>\<open>(\w+(?:\s+\w+)?)\<close>\<close>
  "captured_words = Group (Seq (Plus Word) (Opt (Seq (Plus Space) (Plus Word))))"

definition diet_pattern :: regex where
  \<comment> \<open>\<open>(?:i am|i'm|we are|we're)\s+(?:a\s+)?(vegetarian|vegan|omnivore|pescatarian)\<close>\<close>
  "diet_pattern =
     Seq (Alt (Lit ''i am'') (Alt (Lit (''i'' @ [CHR 0x27] @ ''m''))
         (Alt (Lit ''we are'') (Lit (''we'' @ [CHR 0x27] @ ''re'')))))
    (Seq (Plus Space)
    (Seq (Opt (Seq (Lit ''a'') (Plus Space)))
         (Group (Alt (Lit ''vegetarian'') (Alt (Lit ''vegan'')
                (Alt (Lit ''omnivore'') (Lit ''pescatarian'')))))))"

definition transport_pattern :: regex where
  \<comment> \<open>\<open>(?:i|we)\s+(?:drive|use|take|ride)\s+(?:a\s+)?(\w+(?:\s+\w+)?)\s+(?:to work|daily|regularly)\<close>\<close>
  "transport_pattern =
     Seq (Alt (Lit ''i'') (Lit ''we''))
    (Seq (Plus Space)
    (Seq (Alt (Lit ''drive'') (Alt (Lit ''use'') (Alt (Lit ''take'') (Lit ''ride''))))
    (Seq (Plus Space)
    (Seq (Opt (Seq (Lit ''a'') (Plus Space)))
    (Seq captured_words
    (Seq (Plus Space)
         (Alt (Lit ''to work'') (Alt (Lit ''daily'') (Lit ''regularly'')))))))))"

definition location_pattern :: regex where
  \<comment> \<open>\<open>(?:live|living)\s+in\s+(\w+(?:\s+\w+)?)\<close>\<close>
  "location_pattern =
     Seq (Alt (Lit ''live'') (Lit ''living''))
    (Seq (Plus Space) (Seq (Lit ''in'') (Seq (Plus Space) captured_words)))"

definition preference_patterns :: "(regex \<times> string) list" where
  "preference_patterns =
     [(diet_pattern, ''Diet: ''), (transport_pattern, ''Transport: ''),
      (location_pattern, ''Location: '')]"

definition is_sentence_end :: "char \<Rightarrow> bool" where
  \<comment> \<open>the class \<open>[.!?]\<close>\<close>
  "is_sentence_end c = (c = CHR ''.'' \<or> c = CHR ''!'' \<or> c = CHR ''?'')"

definition group1 :: "string option \<Rightarrow> string" where
  \<comment> \<open>\<open>match.group(1)\<close> as \<open>format\<close> prints it\<close>
  "group1 g = (case g of None \<Rightarrow> ''None'' | Some x \<Rightarrow> x)"

text \<open>
  \<open>list(set(facts))\<close> keeps one copy of each fact, in the iteration order of a Python set
  of strings. That order is fixed within one process and differs between processes (string
  hashing is seeded), so the model takes it as the parameter \<open>so\<close>: \<open>so xs\<close> is the list
  Python builds from the set filled with \<open>xs\<close> in this order. \<open>set_order so\<close> says what
  every such order satisfies.
\<close>

definition set_order :: "(string list \<Rightarrow> string list) \<Rightarrow> bool" where
  "set_order so = (\<forall>xs. set (so xs) = set xs \<and> distinct (so xs))"

definition commitment_facts :: "CompactionConfig \<Rightarrow> string \<Rightarrow> string list" where
  "commitment_facts cfg text =
     concat (map (\<lambda>sentence.
        let sentence_lower = lower sentence in
        if list_ex (\<lambda>word. contains word sentence_lower) commitment_words
        then (if list_ex (\<lambda>kw. contains kw sentence_lower) (priority_keywords cfg)
              then [''Commitment: '' @ strip sentence] else [])
        else [])
      (split_on is_sentence_end text))"

definition preference_facts :: "string \<Rightarrow> string list" where
  "preference_facts text_lower =
     concat (map (\<lambda>(pattern, template).
        (case re_search pattern text_lower of
           None \<Rightarrow> []
         | Some (m, g, rest) \<Rightarrow> [template @ group1 g]))
      preference_patterns)"

definition extract_key_facts ::
  "(string list \<Rightarrow> string list) \<Rightarrow> CompactionConfig \<Rightarrow> string \<Rightarrow> string list" where
  "extract_key_facts so cfg text =
     (let text_lower = lower text;
          facts = map (\<lambda>m. ''Emissions data: '' @ m) (re_finditer co2_pattern text_lower)
                  @ commitment_facts cfg text
                  @ preference_facts text_lower
      in so facts)"

section \<open>The compactor\<close>

record turn =
  role :: string
  content :: "string option"

definition turn_content :: "turn \<Rightarrow> string" where
  \<comment> \<open>\<open>t.get("content", "")\<close>\<close>
  "turn_content t = (case content t of None \<Rightarrow> [] | Some c \<Rightarrow> c)"

record CompactionResult =
  original_tokens :: int
  compacted_tokens :: int
  compression_ratio :: real
  summary :: string
  preserved_facts :: "string list"
  kept_turns :: nat
  compacted_turns :: nat

definition estimate_tokens :: "string \<Rightarrow> int" where
  "estimate_tokens text = int (length text) div 4"

definition topic_keywords :: "(string \<times> string list) list" where
  "topic_keywords =
     [(''diet'', [''food'', ''eat'', ''meal'', ''meat'', ''vegetarian'']),
      (''transport'', [''car'', ''drive'', ''commute'', ''flight'', ''train'']),
      (''energy'', [''electricity'', ''energy'', ''power'', ''heating'']),
      (''footprint'', [''footprint'', ''emissions'', ''carbon'', ''co2''])]"

definition turn_topics :: "turn \<Rightarrow> string list" where
  \<comment> \<open>the topics one turn adds to the set \<open>topics\<close>, in the order it adds them\<close>
  "turn_topics t =
     (let content_lower = lower (turn_content t) in
      map fst (filter (\<lambda>(topic, keywords). list_ex (\<lambda>kw. contains kw content_lower) keywords)
                 topic_keywords))"

definition summarize_turns ::
  "(string list \<Rightarrow> string list) \<Rightarrow> CompactionConfig \<Rightarrow> turn list \<Rightarrow> string" where
  "summarize_turns so cfg turns =
     (if turns = [] then []
      else
        let all_facts = concat (map (\<lambda>t. extract_key_facts so cfg (turn_content t)) turns);
            topics = concat (map turn_topics turns);
            summary_parts =
              (if topics \<noteq> []
               then [''[Previous discussion covered: '' @ join '', '' (so topics) @ '']'']
               else [])
              @ (if all_facts \<noteq> []
                 then [''[Key facts: '' @ join ''; '' (take 5 (so all_facts)) @ '']'']
                 else []);
            summary = join '' '' summary_parts
        in if int (length summary) > summary_max_length cfg
           then py_slice_to (summary_max_length cfg - 3) summary @ ''...''
           else summary)"

definition compact ::
  "(string list \<Rightarrow> string list) \<Rightarrow> CompactionConfig \<Rightarrow> turn list \<Rightarrow> CompactionResult" where
  "compact so cfg turns =
     (if turns = [] then
        \<lparr>original_tokens = 0, compacted_tokens = 0, compression_ratio = 1, summary = [],
         preserved_facts = [], kept_turns = 0, compacted_turns = 0\<rparr>
      else
        let original_text = join '' '' (map turn_content turns);
            original_tokens = estimate_tokens original_text
        in if original_tokens \<le> max_tokens cfg then
             \<lparr>original_tokens = original_tokens, compacted_tokens = original_tokens,
              compression_ratio = 1, summary = [],
              preserved_facts = extract_key_facts so cfg original_text,
              kept_turns = length turns, compacted_turns = 0\<rparr>
           else
             let keep_count = max (min_turns_to_keep cfg) (int (length turns) div 3);
                 turns_to_summarize = py_slice_to (- keep_count) turns;
                 turns_to_keep = py_slice_from (- keep_count) turns;
                 summary = summarize_turns so cfg turns_to_summarize;
                 all_facts = extract_key_facts so cfg original_text;
                 kept_text = join '' '' (map turn_content turns_to_keep);
                 compacted_tokens = estimate_tokens (summary @ '' '' @ kept_text)
             in \<lparr>original_tokens = original_tokens, compacted_tokens = compacted_tokens,
                 compression_ratio =
                   (if original_tokens > 0
                    then real_of_int compacted_tokens / real_of_int original_tokens else 1),
                 summary = summary,
                 preserved_facts = take 10 all_facts,
                 kept_turns = length turns_to_keep,
                 compacted_turns = length turns_to_summarize\<rparr>)"

definition get_compacted_context ::
  "(string list \<Rightarrow> string list) \<Rightarrow> CompactionConfig \<Rightarrow> turn list \<Rightarrow> string" where
  "get_compacted_context so cfg events =
     (let result = compact so cfg events in
      if summary result = [] then []
      else
        let context_parts =
              (if summary result \<noteq> [] then [summary result] else [])
              @ (if preserved_facts result \<noteq> []
                 then [''[Preserved facts: '' @ join ''; '' (preserved_facts result) @ '']'']
                 else [])
        in join [CHR 0x0A] context_parts)"

section \<open>The memory service\<close>

subsection \<open>Values and entities\<close>

text \<open>
  The service returns and stores Python dictionaries. A dictionary is an association list in
  insertion order, its values are \<open>pyval\<close>s. A \<open>float\<close> is modelled by the real number it
  stands for; the operations that round (\<open>+\<close> on floats, \<open>round(x, 2)\<close>, printing) are
  parameters of the model.
\<close>

datatype pyval =
    VStr string
  | VInt int
  | VFloat real
  | VList "pyval list"
  | VDict "(string \<times> pyval) list"

type_synonym pydict = "(string \<times> pyval) list"

definition dict_get :: "pydict \<Rightarrow> string \<Rightarrow> pyval option" where
  "dict_get d k = map_of d k"

record UserProfile =
  user_id :: string
  created_at :: string
  updated_at :: string
  city :: string
  country :: string
  climate_zone :: string
  diet_type :: string
  meat_meals_per_week :: int
  local_food_percentage :: int
  primary_transport :: string
  car_type :: string
  commute_distance_km :: real
  flights_per_year :: int
  home_type :: string
  electricity_kwh_monthly :: real
  gas_m3_monthly :: real
  renewable_energy_percentage :: int
  shopping_frequency :: string
  recycling_habits :: string
  reduction_goal_percentage :: int
  priority_areas :: "string list"

record FootprintRecord =
  record_id :: string
  user_id_f :: string
  timestamp_f :: string
  category_f :: string
  activity :: string
  emissions_kg_co2 :: real
  details :: pydict

record MemoryEntry =
  entry_id :: string
  user_id_m :: string
  app_name :: string
  content_m :: string
  category_m :: string
  timestamp_m :: string
  metadata :: pydict
  embedding :: "real list option"

definition profile_asdict :: "UserProfile \<Rightarrow> pydict" where
  \<comment> \<open>\<open>asdict(self)\<close> of a \<open>UserProfile\<close>\<close>
  "profile_asdict p =
     [(''user_id'', VStr (user_id p)), (''created_at'', VStr (created_at p)),
      (''updated_at'', VStr (updated_at p)), (''city'', VStr (city p)),
      (''country'', VStr (country p)), (''climate_zone'', VStr (climate_zone p)),
      (''diet_type'', VStr (diet_type p)),
      (''meat_meals_per_week'', VInt (meat_meals_per_week p)),
      (''local_food_percentage'', VInt (local_food_percentage p)),
      (''primary_transport'', VStr (primary_transport p)), (''car_type'', VStr (car_type p)),
      (''commute_distance_km'', VFloat (commute_distance_km p)),
      (''flights_per_year'', VInt (flights_per_year p)), (''home_type'', VStr (home_type p)),
      (''electricity_kwh_monthly'', VFloat (electricity_kwh_monthly p)),
      (''gas_m3_monthly'', VFloat (gas_m3_monthly p)),
      (''renewable_energy_percentage'', VInt (renewable_energy_percentage p)),
      (''shopping_frequency'', VStr (shopping_frequency p)),
      (''recycling_habits'', VStr (recycling_habits p)),
      (''reduction_goal_percentage'', VInt (reduction_goal_percentage p)),
      (''priority_areas'', VList (map VStr (priority_areas p)))]"

definition footprint_asdict :: "FootprintRecord \<Rightarrow> pydict" where
  \<comment> \<open>\<open>FootprintRecord.to_dict\<close>\<close>
  "footprint_asdict r =
     [(''record_id'', VStr (record_id r)), (''user_id'', VStr (user_id_f r)),
      (''timestamp'', VStr (timestamp_f r)), (''category'', VStr (category_f r)),
      (''activity'', VStr (activity r)), (''emissions_kg_co2'', VFloat (emissions_kg_co2 r)),
      (''details'', VDict (details r))]"

subsection \<open>Profile objects\<close>

text \<open>
  A \<open>UserProfile\<close> instance is a mutable object: \<open>_profiles\<close> holds references, and
  \<open>save_profile\<close> and \<open>update_profile\<close> write into the object they are given. An object is
  its dataclass fields and the instance attributes \<open>setattr\<close> has added beside them. Such
  an attribute hides the method of the same name.
\<close>

record profile_obj =
  data :: UserProfile
  inst_attrs :: pydict

datatype exn =
    TypeError string
  | Outside_model string

definition str_fields :: "(string \<times> (string \<Rightarrow> UserProfile \<Rightarrow> UserProfile)) list" where
  "str_fields =
     [(''user_id'', \<lambda>v p. p\<lparr>user_id := v\<rparr>),
      (''created_at'', \<lambda>v p. p\<lparr>created_at := v\<rparr>),
      (''updated_at'', \<lambda>v p. p\<lparr>updated_at := v\<rparr>),
      (''city'', \<lambda>v p. p\<lparr>city := v\<rparr>),
      (''country'', \<lambda>v p. p\<lparr>country := v\<rparr>),
      (''climate_zone'', \<lambda>v p. p\<lparr>climate_zone := v\<rparr>),
      (''diet_type'', \<lambda>v p. p\<lparr>diet_type := v\<rparr>),
      (''primary_transport'', \<lambda>v p. p\<lparr>primary_transport := v\<rparr>),
      (''car_type'', \<lambda>v p. p\<lparr>car_type := v\<rparr>),
      (''home_type'', \<lambda>v p. p\<lparr>home_type := v\<rparr>),
      (''shopping_frequency'', \<lambda>v p. p\<lparr>shopping_frequency := v\<rparr>),
      (''recycling_habits'', \<lambda>v p. p\<lparr>recycling_habits := v\<rparr>)]"

definition int_fields :: "(string \<times> (int \<Rightarrow> UserProfile \<Rightarrow> UserProfile)) list" where
  "int_fields =
     [(''meat_meals_per_week'', \<lambda>v p. p\<lparr>meat_meals_per_week := v\<rparr>),
      (''local_food_percentage'', \<lambda>v p. p\<lparr>local_food_percentage := v\<rparr>),
      (''flights_per_year'', \<lambda>v p. p\<lparr>flights_per_year := v\<rparr>),
      (''renewable_energy_percentage'', \<lambda>v p. p\<lparr>renewable_energy_percentage := v\<rparr>),
      (''reduction_goal_percentage'', \<lambda>v p. p\<lparr>reduction_goal_percentage := v\<rparr>)]"

definition float_fields :: "(string \<times> (real \<Rightarrow> UserProfile \<Rightarrow> UserProfile)) list" where
  "float_fields =
     [(''commute_distance_km'', \<lambda>v p. p\<lparr>commute_distance_km := v\<rparr>),
      (''electricity_kwh_monthly'', \<lambda>v p. p\<lparr>electricity_kwh_monthly := v\<rparr>),
      (''gas_m3_monthly'', \<lambda>v p. p\<lparr>gas_m3_monthly := v\<rparr>)]"

definition field_names :: "string list" where
  \<comment> \<open>the keys of \<open>UserProfile.__dataclass_fields__\<close>\<close>
  "field_names =
     map fst str_fields @ map fst int_fields @ map fst float_fields @ [''priority_areas'']"

definition method_names :: "string list" where
  "method_names = [''to_dict'', ''from_dict'']"

definition is_dunder :: "string \<Rightarrow> bool" where
  \<comment> \<open>a name of the form \<open>__x__\<close>: the attributes every Python object inherits have this form\<close>
  "is_dunder key = (4 < length key \<and> take 2 key = ''__'' \<and> take 2 (rev key) = ''__'')"

definition hasattr :: "profile_obj \<Rightarrow> string \<Rightarrow> bool" where
  \<comment> \<open>\<open>hasattr(profile, key)\<close> for a key that is not of the form \<open>__x__\<close>: a dataclass
      field, a method of the class, or an instance attribute\<close>
  "hasattr obj key =
     (key \<in> set field_names \<or> key \<in> set method_names \<or> key \<in> set (map fst (inst_attrs obj)))"

definition setattr :: "profile_obj \<Rightarrow> string \<Rightarrow> pyval \<Rightarrow> exn + profile_obj" where
  \<comment> \<open>\<open>setattr(profile, key, value)\<close> for a key \<open>hasattr\<close> accepts. The record is typed, so
      a value of another type than the field's annotation is outside the model.\<close>
  "setattr obj key v =
     (case map_of str_fields key of
        Some upd \<Rightarrow>
          (case v of VStr x \<Rightarrow> Inr (obj\<lparr>data := upd x (data obj)\<rparr>)
                   | _ \<Rightarrow> Inl (Outside_model key))
      | None \<Rightarrow>
     (case map_of int_fields key of
        Some upd \<Rightarrow>
          (case v of VInt x \<Rightarrow> Inr (obj\<lparr>data := upd x (data obj)\<rparr>)
                   | _ \<Rightarrow> Inl (Outside_model key))
      | None \<Rightarrow>
     (case map_of float_fields key of
        Some upd \<Rightarrow>
          (case v of VFloat x \<Rightarrow> Inr (obj\<lparr>data := upd x (data obj)\<rparr>)
                   | VInt x \<Rightarrow> Inr (obj\<lparr>data := upd (real_of_int x) (data obj)\<rparr>)
                   | _ \<Rightarrow> Inl (Outside_model key))
      | None \<Rightarrow>
     (if key = ''priority_areas'' then
        (case v of
           VList xs \<Rightarrow>
             (if list_all (\<lambda>x. case x of VStr _ \<Rightarrow> True | _ \<Rightarrow> False) xs
              then Inr (obj\<lparr>data := (data obj)
                          \<lparr>priority_areas := map (\<lambda>x. case x of VStr y \<Rightarrow> y | _ \<Rightarrow> []) xs\<rparr>\<rparr>)
              else Inl (Outside_model key))
         | _ \<Rightarrow> Inl (Outside_model key))
      else Inr (obj\<lparr>inst_attrs := AList.update key v (inst_attrs obj)\<rparr>)))))"

definition to_dict :: "profile_obj \<Rightarrow> exn + pydict" where
  \<comment> \<open>\<open>profile.to_dict()\<close>: an instance attribute \<open>to_dict\<close> hides the method, and calling a
      value that is not callable raises \<open>TypeError\<close>\<close>
  "to_dict obj =
     (if ''to_dict'' \<in> set (map fst (inst_attrs obj))
      then Inl (TypeError ''object is not callable'')
      else Inr (profile_asdict (data obj)))"

subsection \<open>The state\<close>

text \<open>
  \<open>world\<close> holds the three dictionaries of the service, the profile objects they refer to,
  and what the service reads from outside: \<open>datetime.now().isoformat()\<close> (the k-th reading
  is \<open>clock k\<close>), \<open>uuid.uuid4().hex[:12]\<close> (the k-th draw is \<open>uuids k\<close>), and the
  arithmetic and printing of floats.
\<close>

record world =
  heap :: "nat \<Rightarrow> profile_obj"
  next_ref :: nat
  profiles :: "string \<Rightarrow> nat option"
  memories :: "string \<Rightarrow> MemoryEntry list option"
  footprint_history :: "string \<Rightarrow> FootprintRecord list option"
  clock :: "nat \<Rightarrow> string"
  clock_reads :: nat
  uuids :: "nat \<Rightarrow> string"
  uuid_draws :: nat
  float_add :: "real \<Rightarrow> real \<Rightarrow> real"
  float_round2 :: "real \<Rightarrow> real"
  float_str :: "real \<Rightarrow> string"

definition now_isoformat :: "world \<Rightarrow> string \<times> world" where
  "now_isoformat w = (clock w (clock_reads w), w\<lparr>clock_reads := Suc (clock_reads w)\<rparr>)"

definition generate_id :: "string \<Rightarrow> world \<Rightarrow> string \<times> world" where
  \<comment> \<open>\<open>_generate_id\<close>\<close>
  "generate_id prefix w =
     (prefix @ ''_'' @ uuids w (uuid_draws w), w\<lparr>uuid_draws := Suc (uuid_draws w)\<rparr>)"

definition new_profile :: "UserProfile \<Rightarrow> world \<Rightarrow> nat \<times> world" where
  \<comment> \<open>the caller constructs a \<open>UserProfile\<close>: a new object\<close>
  "new_profile p w =
     (next_ref w,
      w\<lparr>heap := (heap w)(next_ref w := \<lparr>data = p, inst_attrs = []\<rparr>),
        next_ref := Suc (next_ref w)\<rparr>)"

subsection \<open>Operations\<close>

definition add_memory ::
  "string \<Rightarrow> string \<Rightarrow> string \<Rightarrow> string \<Rightarrow> pydict option \<Rightarrow> world \<Rightarrow> pydict \<times> world" where
  "add_memory uid app txt cat md w =
     (let (eid, w1) = generate_id ''mem'' w;
          (ts, w2) = now_isoformat w1;
          entry = \<lparr>entry_id = eid, user_id_m = uid, app_name = app, content_m = txt,
                   category_m = cat, timestamp_m = ts,
                   metadata = (case md of None \<Rightarrow> [] | Some d \<Rightarrow> d), embedding = None\<rparr>;
          old = (case memories w2 uid of None \<Rightarrow> [] | Some ms \<Rightarrow> ms);
          w3 = w2\<lparr>memories := (memories w2)(uid \<mapsto> old @ [entry])\<rparr>
      in ([(''status'', VStr ''success''), (''entry_id'', VStr eid),
           (''message'', VStr ''Memory added successfully'')], w3))"

definition profile_summary :: "UserProfile \<Rightarrow> string" where
  "profile_summary p =
     ''User profile: '' @ diet_type p @ '' diet, '' @ primary_transport p
       @ '' transport, lives in '' @ city p"

definition save_profile :: "nat \<Rightarrow> world \<Rightarrow> (exn + pydict) \<times> world" where
  \<comment> \<open>\<open>save_profile(profile)\<close>, \<open>ref\<close> the object passed\<close>
  "save_profile ref w =
     (let (ts, w1) = now_isoformat w;
          obj = (heap w1 ref)\<lparr>data := (data (heap w1 ref))\<lparr>updated_at := ts\<rparr>\<rparr>;
          w2 = w1\<lparr>heap := (heap w1)(ref := obj)\<rparr>;
          w3 = w2\<lparr>profiles := (profiles w2)(user_id (data obj) \<mapsto> ref)\<rparr>
      in case to_dict obj of
           Inl e \<Rightarrow> (Inl e, w3)
         | Inr md \<Rightarrow>
             (let (r, w4) = add_memory (user_id (data obj)) ''climateguard''
                              (profile_summary (data obj)) ''profile'' (Some md) w3
              in (Inr [(''status'', VStr ''success''), (''user_id'', VStr (user_id (data obj))),
                       (''message'', VStr ''Profile saved'')], w4)))"

definition get_profile :: "string \<Rightarrow> world \<Rightarrow> nat option" where
  "get_profile uid w = profiles w uid"

fun apply_updates :: "pydict \<Rightarrow> profile_obj \<Rightarrow> exn + profile_obj" where
  \<comment> \<open>the loop \<open>for key, value in updates.items()\<close>\<close>
  "apply_updates [] obj = Inr obj"
| "apply_updates ((key, v) # rest) obj =
     (if is_dunder key then Inl (Outside_model key)
      else if hasattr obj key then
        (case setattr obj key v of Inl e \<Rightarrow> Inl e | Inr obj' \<Rightarrow> apply_updates rest obj')
      else apply_updates rest obj)"

definition update_profile :: "string \<Rightarrow> pydict \<Rightarrow> world \<Rightarrow> (exn + pydict) \<times> world" where
  "update_profile uid updates w =
     (case profiles w uid of
        None \<Rightarrow>
          (Inr [(''status'', VStr ''error''),
                (''message'', VStr (''Profile not found for user '' @ uid))], w)
      | Some ref \<Rightarrow>
          (case apply_updates updates (heap w ref) of
             Inl e \<Rightarrow> (Inl e, w)
           | Inr obj \<Rightarrow>
               (let (ts, w1) = now_isoformat (w\<lparr>heap := (heap w)(ref := obj)\<rparr>);
                    obj1 = (heap w1 ref)\<lparr>data := (data (heap w1 ref))\<lparr>updated_at := ts\<rparr>\<rparr>
                in save_profile ref (w1\<lparr>heap := (heap w1)(ref := obj1)\<rparr>))))"







definition stored_memories :: "world \<Rightarrow> string \<Rightarrow> MemoryEntry list" where
  \<comment> \<open>\<open>self._memories.get(user_id, [])\<close>\<close>
  "stored_memories w uid = (case memories w uid of None \<Rightarrow> [] | Some ms \<Rightarrow> ms)"


definition record_footprint ::
  "string \<Rightarrow> string \<Rightarrow> string \<Rightarrow> real \<Rightarrow> pydict option \<Rightarrow> world \<Rightarrow> pydict \<times> world" where
  "record_footprint uid cat act e dt w =
     (let (rid, w1) = generate_id ''fp'' w;
          (ts, w2) = now_isoformat w1;
          record = \<lparr>record_id = rid, user_id_f = uid, timestamp_f = ts, category_f = cat,
                    activity = act, emissions_kg_co2 = e,
                    details = (case dt of None \<Rightarrow> [] | Some d \<Rightarrow> d)\<rparr>;
          old = (case footprint_history w2 uid of None \<Rightarrow> [] | Some rs \<Rightarrow> rs);
          w3 = w2\<lparr>footprint_history := (footprint_history w2)(uid \<mapsto> old @ [record])\<rparr>;
          (r, w4) = add_memory uid ''climateguard''
                      (''Footprint recorded: '' @ act @ '' - '' @ float_str w3 e
                         @ '' kg CO2 ('' @ cat @ '')'')
                      ''footprint'' (Some (footprint_asdict record)) w3
      in ([(''status'', VStr ''success''), (''record_id'', VStr rid),
           (''emissions_kg_co2'', VFloat e)], w4))"

definition history_records :: "string \<Rightarrow> string option \<Rightarrow> world \<Rightarrow> FootprintRecord list" where
  \<comment> \<open>\<open>records\<close> after the category filter; \<open>if category:\<close> skips \<open>None\<close> and the empty string\<close>
  "history_records uid category w =
     (let records = (case footprint_history w uid of None \<Rightarrow> [] | Some rs \<Rightarrow> rs) in
      case category of
        None \<Rightarrow> records
      | Some c \<Rightarrow> (if c = [] then records else filter (\<lambda>r. category_f r = c) records))"

definition by_category_totals :: "world \<Rightarrow> FootprintRecord list \<Rightarrow> (string \<times> real) list" where
  \<comment> \<open>the loop filling \<open>by_category\<close>\<close>
  "by_category_totals w records =
     foldl (\<lambda>bc r. AList.update (category_f r)
                     (float_add w (case map_of bc (category_f r) of None \<Rightarrow> 0 | Some v \<Rightarrow> v)
                        (emissions_kg_co2 r)) bc)
       [] records"

definition trend :: "FootprintRecord list \<Rightarrow> string" where
  "trend records =
     (if 1 < length records \<and> emissions_kg_co2 (last records) < emissions_kg_co2 (hd records)
      then ''improving'' else ''needs_attention'')"

definition get_footprint_history :: "string \<Rightarrow> string option \<Rightarrow> int \<Rightarrow> world \<Rightarrow> pydict" where
  "get_footprint_history uid category days w =
     (let records = history_records uid category w;
          total_emissions = foldl (float_add w) 0 (map emissions_kg_co2 records);
          by_category = by_category_totals w records
      in [(''status'', VStr ''success''), (''user_id'', VStr uid),
          (''records_count'', VInt (int (length records))),
          (''total_emissions_kg_co2'', VFloat (float_round2 w total_emissions)),
          (''by_category'', VDict (map (\<lambda>(k, v). (k, VFloat (float_round2 w v))) by_category)),
          (''records'', VList (map (\<lambda>r. VDict (footprint_asdict r)) (py_slice_from (- 10) records))),
          (''trend'', VStr (trend records))])"

section \<open>Example conversations\<close>

definition user_turn :: "string \<Rightarrow> turn" where
  "user_turn text = \<lparr>role = ''user'', content = Some text\<rparr>"

definition eleven_commitments :: string where
  "eleven_commitments =
     ''will a.will b.will c.will d.will e.will f.will g.will h.will i.will j.will k''"

definition tight_config :: CompactionConfig where
  "tight_config = default_config\<lparr>max_tokens := 5\<rparr>"

definition meatless_turns :: "turn list" where
  "meatless_turns =
     map user_turn [''hi'', ''ok'', ''yes'', ''no'', ''I commit to Meatless Mondays'',
                    ''fine'', ''well'', ''so'', ''and'', ''bye'']"

definition crowded_turns :: "turn list" where
  "crowded_turns =
     map user_turn [''will a.will b.will c.will d.will e.will f.will g.will h.will i.will j.'',
                    ''ok'', ''yes'', ''no'', ''I commit to Meatless Mondays'',
                    ''fine'', ''well'', ''so'', ''and'', ''bye'']"

definition no_minimum_config :: CompactionConfig where
  "no_minimum_config = default_config\<lparr>max_tokens := 0, min_turns_to_keep := 0\<rparr>"

definition two_turns :: "turn list" where
  "two_turns = map user_turn [''abcd'', ''efgh'']"

definition quiet_start_turns :: "turn list" where
  "quiet_start_turns = map user_turn [''hello there'', ''hi'', ''ok'', ''I will reduce meat.'']"

definition is_meatless_commitment :: "string \<Rightarrow> bool" where
  \<comment> \<open>a fact string beginning with \<open>Commitment:\<close> and including \<open>Meatless Mondays\<close>\<close>
  "is_meatless_commitment f = (take 11 f = ''Commitment:'' \<and> contains ''Meatless Mondays'' f)"

definition budget_one_config :: CompactionConfig where
  "budget_one_config = default_config\<lparr>max_tokens := 1\<rparr>"

section \<open>An example service\<close>

text \<open>
  \<open>default_profile uid\<close> is \<open>UserProfile(user_id=uid)\<close>: the two timestamps are read from
  the clock, the other fields take their defaults. \<open>new_service\<close> is the service as
  \<open>__init__\<close> leaves it, with an example clock, example identifiers and exact arithmetic
  in place of what the service reads from outside.
\<close>

definition blank_profile :: "string \<Rightarrow> string \<Rightarrow> string \<Rightarrow> UserProfile" where
  \<comment> \<open>the field defaults of \<open>UserProfile\<close>\<close>
  "blank_profile uid c u =
     \<lparr>user_id = uid, created_at = c, updated_at = u, city = [], country = [],
      climate_zone = [], diet_type = [], meat_meals_per_week = 0,
      local_food_percentage = 0, primary_transport = [], car_type = [],
      commute_distance_km = 0, flights_per_year = 0, home_type = [],
      electricity_kwh_monthly = 0, gas_m3_monthly = 0, renewable_energy_percentage = 0,
      shopping_frequency = [], recycling_habits = [], reduction_goal_percentage = 20,
      priority_areas = []\<rparr>"

definition default_profile :: "string \<Rightarrow> world \<Rightarrow> UserProfile \<times> world" where
  "default_profile uid w =
     (let (c, w1) = now_isoformat w;
          (u, w2) = now_isoformat w1
      in (blank_profile uid c u, w2))"

definition example_clock :: "nat \<Rightarrow> string" where
  "example_clock k = ''2025-01-01T09:00:00.0'' @ replicate k (CHR ''9'')"

definition example_uuids :: "nat \<Rightarrow> string" where
  "example_uuids k = replicate k (CHR ''a'') @ replicate (12 - k) (CHR ''0'')"

definition example_float_str :: "real \<Rightarrow> string" where
  "example_float_str x = (if x = 10.5 then ''10.5'' else if x = 8 then ''8.0'' else ''0.0'')"

definition new_service :: world where
  "new_service =
     \<lparr>heap = (\<lambda>r. \<lparr>data = blank_profile [] [] [], inst_attrs = []\<rparr>),
      next_ref = 0, profiles = Map.empty, memories = Map.empty,
      footprint_history = Map.empty,
      clock = example_clock, clock_reads = 0, uuids = example_uuids, uuid_draws = 0,
      float_add = (+), float_round2 = (\<lambda>x. real_of_int (round (x * 100)) / 100),
      float_str = example_float_str\<rparr>"

definition fresh_profile :: "string \<Rightarrow> world \<Rightarrow> nat \<times> world" where
  \<comment> \<open>\<open>profile = UserProfile(user_id=uid)\<close>\<close>
  "fresh_profile uid w = (let (p, w1) = default_profile uid w in new_profile p w1)"

definition saved_profile :: "string \<Rightarrow> world \<Rightarrow> world" where
  \<comment> \<open>\<open>await service.save_profile(UserProfile(user_id=uid))\<close>\<close>
  "saved_profile uid w = (let (ref, w1) = fresh_profile uid w in snd (save_profile ref w1))"

definition two_measurements :: "string \<Rightarrow> world \<Rightarrow> world" where
  \<comment> \<open>two calls of \<open>record_footprint\<close> for one identity, 10.5 and then 8.0\<close>
  "two_measurements uid w =
     snd (record_footprint uid ''transport'' ''drive'' 8 None
       (snd (record_footprint uid ''food'' ''beef'' 10.5 None w)))"



section \<open>Properties of the text functions and of the compactor\<close>

lemma contains_iff: "contains w s \<longleftrightarrow> (\<exists>p q. s = p @ w @ q)"
proof (induction s)
  case Nil
  then show ?case by auto
next
  case (Cons c cs)
  have pre: "take (length w) (c # cs) = w \<longleftrightarrow> (\<exists>q. c # cs = w @ q)"
    by (metis append_eq_conv_conj)
  have "(\<exists>p q. c # cs = p @ w @ q) \<longleftrightarrow> (\<exists>q. c # cs = w @ q) \<or> (\<exists>p q. cs = p @ w @ q)"
  proof
    assume "\<exists>p q. c # cs = p @ w @ q"
    then obtain p q where pq: "c # cs = p @ w @ q" by blast
    show "(\<exists>q. c # cs = w @ q) \<or> (\<exists>p q. cs = p @ w @ q)"
    proof (cases p)
      case Nil
      with pq show ?thesis by auto
    next
      case (Cons a p')
      with pq have "cs = p' @ w @ q" by simp
      then show ?thesis by blast
    qed
  next
    assume "(\<exists>q. c # cs = w @ q) \<or> (\<exists>p q. cs = p @ w @ q)"
    then show "\<exists>p q. c # cs = p @ w @ q"
    proof
      assume "\<exists>q. c # cs = w @ q"
      then obtain q where "c # cs = [] @ w @ q" by auto
      then show ?thesis by blast
    next
      assume "\<exists>p q. cs = p @ w @ q"
      then obtain p q where "cs = p @ w @ q" by blast
      then have "c # cs = (c # p) @ w @ q" by simp
      then show ?thesis by blast
    qed
  qed
  with Cons pre show ?case by simp
qed

lemma split_on_hd: "\<exists>ws. split_on P s = takeWhile (\<lambda>c. \<not> P c) s # ws"
  by (induction s) auto

lemma split_on_keeps:
  assumes "\<forall>c \<in> set t. \<not> P c"
  shows "\<exists>s \<in> set (split_on P (pre @ t @ post)). \<exists>a b. s = a @ t @ b"
proof (induction pre)
  case Nil
  obtain ws where "split_on P (t @ post) = takeWhile (\<lambda>c. \<not> P c) (t @ post) # ws"
    using split_on_hd by blast
  moreover have "takeWhile (\<lambda>c. \<not> P c) (t @ post) = [] @ t @ takeWhile (\<lambda>c. \<not> P c) post"
    using assms by simp
  ultimately show ?case by (metis append_Nil list.set_intros(1))
next
  case (Cons c pre)
  then obtain s a b where s: "s \<in> set (split_on P (pre @ t @ post))" "s = a @ t @ b"
    by blast
  show ?case
  proof (cases "P c")
    case True
    with s show ?thesis by auto
  next
    case False
    obtain w ws where w: "split_on P (pre @ t @ post) = w # ws"
      using split_on_hd by blast
    with False have eq: "split_on P ((c # pre) @ t @ post) = (c # w) # ws" by simp
    show ?thesis
    proof (cases "s = w")
      case True
      with s have "c # w = (c # a) @ t @ b" by simp
      with eq show ?thesis by (metis list.set_intros(1))
    next
      case False
      with s w have "s \<in> set ws" by auto
      with eq s show ?thesis by (metis list.set_intros(2))
    qed
  qed
qed

lemma dropWhile_keeps:
  assumes "t \<noteq> []" "\<not> P (hd t)"
  shows "\<exists>a'. dropWhile P (a @ t @ b) = a' @ t @ b"
proof (cases "\<forall>x \<in> set a. P x")
  case True
  then have "dropWhile P (a @ t @ b) = dropWhile P (t @ b)" by (simp add: dropWhile_append)
  also have "\<dots> = [] @ t @ b" using assms by (cases t) auto
  finally show ?thesis by blast
next
  case False
  then have "dropWhile P (a @ t @ b) = dropWhile P a @ t @ b" by (auto simp add: dropWhile_append)
  then show ?thesis by blast
qed

lemma strip_keeps:
  assumes "t \<noteq> []" "\<not> is_space (hd t)" "\<not> is_space (last t)"
  shows "\<exists>a' b'. strip (a @ t @ b) = a' @ t @ b'"
proof -
  obtain a' where a': "dropWhile is_space (a @ t @ b) = a' @ t @ b"
    using dropWhile_keeps [of t is_space a b] assms by blast
  have "rev t \<noteq> []" "\<not> is_space (hd (rev t))" using assms by (simp_all add: hd_rev)
  then obtain b' where b': "dropWhile is_space (rev b @ rev t @ rev a') = b' @ rev t @ rev a'"
    using dropWhile_keeps [of "rev t" is_space "rev b" "rev a'"] by blast
  have "strip (a @ t @ b) = rev (dropWhile is_space (rev b @ rev t @ rev a'))"
    by (simp add: strip_def a')
  also have "\<dots> = a' @ t @ rev b'" by (simp add: b')
  finally show ?thesis by blast
qed

lemma join_keeps: "x \<in> set xs \<Longrightarrow> \<exists>a b. join sep xs = a @ x @ b"
proof (induction sep xs rule: join.induct)
  case (1 sep)
  then show ?case by simp
next
  case (2 sep y)
  then have "join sep [y] = [] @ x @ []" by simp
  then show ?case by blast
next
  case (3 sep y z zs)
  show ?case
  proof (cases "x = y")
    case True
    then have "join sep (y # z # zs) = [] @ x @ (sep @ join sep (z # zs))" by simp
    then show ?thesis by blast
  next
    case False
    with 3 obtain a b where "join sep (z # zs) = a @ x @ b" by auto
    then have "join sep (y # z # zs) = (y @ sep @ a) @ x @ b" by simp
    then show ?thesis by blast
  qed
qed

lemma lower_append: "lower (a @ b) = lower a @ lower b"
  by (simp add: lower_def)



lemma set_order_Nil: "set_order so \<Longrightarrow> so [] = []"
  by (metis set_order_def set_empty)

lemma set_order_remdups: "set_order remdups"
  by (simp add: set_order_def)

lemma co2_no_match_Nil: "re_finditer co2_pattern [] = []"
  by (simp add: re_finditer.simps [of _ "[]"] co2_pattern_def)

lemma commitment_facts_Nil: "commitment_facts cfg [] = []"
  by (simp add: commitment_facts_def commitment_words_def lower_def)

lemma preference_facts_Nil: "preference_facts [] = []"
  by (simp add: preference_facts_def preference_patterns_def diet_pattern_def
      transport_pattern_def location_pattern_def)

lemma extract_key_facts_Nil: "set_order so \<Longrightarrow> extract_key_facts so cfg [] = []"
  by (simp add: extract_key_facts_def lower_def co2_no_match_Nil commitment_facts_Nil
      preference_facts_Nil set_order_Nil)

lemma slice_lengths:
  "length (py_slice_to (- k) xs) + length (py_slice_from (- k) xs) = length xs"
  by (auto simp: py_slice_to_def py_slice_from_def)

subsection \<open>Lengths after the split into summarized and kept turns\<close>

lemma compact_over_budget_fields:
  assumes "turns \<noteq> []"
    and "max_tokens cfg < estimate_tokens (join '' '' (map turn_content turns))"
  shows "compact so cfg turns =
     (let keep_count = max (min_turns_to_keep cfg) (int (length turns) div 3);
          turns_to_summarize = py_slice_to (- keep_count) turns;
          turns_to_keep = py_slice_from (- keep_count) turns;
          original_tokens = estimate_tokens (join '' '' (map turn_content turns));
          compacted_tokens =
            estimate_tokens (summarize_turns so cfg turns_to_summarize @ '' ''
                             @ join '' '' (map turn_content turns_to_keep))
      in \<lparr>original_tokens = original_tokens, compacted_tokens = compacted_tokens,
          compression_ratio =
            (if original_tokens > 0
             then real_of_int compacted_tokens / real_of_int original_tokens else 1),
          summary = summarize_turns so cfg turns_to_summarize,
          preserved_facts =
            take 10 (extract_key_facts so cfg (join '' '' (map turn_content turns))),
          kept_turns = length turns_to_keep,
          compacted_turns = length turns_to_summarize\<rparr>)"
  using assms by (simp add: compact_def Let_def)

lemma over_budget_kept:
  assumes "turns \<noteq> []"
    and "max_tokens cfg < estimate_tokens (join '' '' (map turn_content turns))"
  shows "kept_turns (compact so cfg turns)
           = length (py_slice_from (- max (min_turns_to_keep cfg) (int (length turns) div 3)) turns)"
  by (simp only: compact_over_budget_fields [OF assms] Let_def CompactionResult.simps)

lemma over_budget_compacted:
  assumes "turns \<noteq> []"
    and "max_tokens cfg < estimate_tokens (join '' '' (map turn_content turns))"
  shows "compacted_turns (compact so cfg turns)
           = length (py_slice_to (- max (min_turns_to_keep cfg) (int (length turns) div 3)) turns)"
  by (simp only: compact_over_budget_fields [OF assms] Let_def CompactionResult.simps)

lemma over_budget_summary:
  assumes "turns \<noteq> []"
    and "max_tokens cfg < estimate_tokens (join '' '' (map turn_content turns))"
  shows "summary (compact so cfg turns)
           = summarize_turns so cfg
               (py_slice_to (- max (min_turns_to_keep cfg) (int (length turns) div 3)) turns)"
  by (simp only: compact_over_budget_fields [OF assms] Let_def CompactionResult.simps)

lemma over_budget_tokens:
  assumes "turns \<noteq> []"
    and "max_tokens cfg < estimate_tokens (join '' '' (map turn_content turns))"
  shows "compacted_tokens (compact so cfg turns)
           = estimate_tokens
               (summarize_turns so cfg
                  (py_slice_to (- max (min_turns_to_keep cfg) (int (length turns) div 3)) turns)
                @ '' '' @ join '' ''
                  (map turn_content
                     (py_slice_from (- max (min_turns_to_keep cfg) (int (length turns) div 3)) turns)))"
  by (simp only: compact_over_budget_fields [OF assms] Let_def CompactionResult.simps)

lemma over_budget_facts:
  assumes "turns \<noteq> []"
    and "max_tokens cfg < estimate_tokens (join '' '' (map turn_content turns))"
  shows "preserved_facts (compact so cfg turns)
           = take 10 (extract_key_facts so cfg (join '' '' (map turn_content turns)))"
  by (simp only: compact_over_budget_fields [OF assms] Let_def CompactionResult.simps)

lemma within_budget_facts:
  assumes "set_order so"
    and "\<not> (turns \<noteq> [] \<and> max_tokens cfg < estimate_tokens (join '' '' (map turn_content turns)))"
  shows "preserved_facts (compact so cfg turns)
           = extract_key_facts so cfg (join '' '' (map turn_content turns))"
proof (cases "turns = []")
  case True
  then show ?thesis
    using assms(1) by (simp add: compact_def extract_key_facts_Nil)
next
  case False
  with assms(2) have "estimate_tokens (join '' '' (map turn_content turns)) \<le> max_tokens cfg"
    by simp
  with False show ?thesis
    by (simp add: compact_def Let_def)
qed

lemma compact_counts_add_up:
  "kept_turns (compact so cfg turns) + compacted_turns (compact so cfg turns) = length turns"
proof (cases "turns \<noteq> [] \<and> max_tokens cfg < estimate_tokens (join '' '' (map turn_content turns))")
  case True
  then have t: "turns \<noteq> []"
    and b: "max_tokens cfg < estimate_tokens (join '' '' (map turn_content turns))"
    by simp_all
  show ?thesis
    using slice_lengths [of "max (min_turns_to_keep cfg) (int (length turns) div 3)" turns]
    unfolding over_budget_kept [OF t b] over_budget_compacted [OF t b]
    by linarith
next
  case False
  show ?thesis
  proof (cases "turns = []")
    case True
    then show ?thesis by (simp add: compact_def)
  next
    case nonempty: False
    with False have "estimate_tokens (join '' '' (map turn_content turns)) \<le> max_tokens cfg"
      by simp
    with nonempty show ?thesis by (simp add: compact_def Let_def)
  qed
qed

lemma length_slice_from_neg:
  assumes "0 \<le> k"
  shows "int (length (py_slice_from (- k) xs)) = (if k = 0 then int (length xs) else min k (int (length xs)))"
proof (cases "k = 0")
  case True
  then show ?thesis by (simp add: py_slice_from_def)
next
  case False
  with assms have "0 < k" by simp
  then have "py_slice_from (- k) xs = drop (length xs - nat k) xs"
    by (simp add: py_slice_from_def)
  then have "length (py_slice_from (- k) xs) = length xs - (length xs - nat k)"
    by simp
  with \<open>0 < k\<close> False show ?thesis by auto
qed

lemma compact_keeps_minimum:
  assumes "turns \<noteq> []"
    and "max_tokens cfg < estimate_tokens (join '' '' (map turn_content turns))"
  shows "min (min_turns_to_keep cfg) (int (length turns)) \<le> int (kept_turns (compact so cfg turns))"
proof -
  define k where "k = max (min_turns_to_keep cfg) (int (length turns) div 3)"
  have k0: "0 \<le> k" and km: "min_turns_to_keep cfg \<le> k"
    by (simp_all add: k_def)
  have "int (kept_turns (compact so cfg turns))
          = (if k = 0 then int (length turns) else min k (int (length turns)))"
    unfolding over_budget_kept [OF assms] k_def [symmetric]
    by (rule length_slice_from_neg [OF k0])
  with km show ?thesis by (cases "k = 0") auto
qed

lemma compact_positive_keep_count:
  assumes "turns \<noteq> []"
    and "max_tokens cfg < estimate_tokens (join '' '' (map turn_content turns))"
    and "0 < max (min_turns_to_keep cfg) (int (length turns) div 3)"
  shows "summary (compact so cfg turns)
           = summarize_turns so cfg
               (take (length turns - nat (max (min_turns_to_keep cfg) (int (length turns) div 3))) turns)
       \<and> compacted_turns (compact so cfg turns)
           = length turns - nat (max (min_turns_to_keep cfg) (int (length turns) div 3))
       \<and> kept_turns (compact so cfg turns)
           = min (nat (max (min_turns_to_keep cfg) (int (length turns) div 3))) (length turns)"
proof -
  define k where "k = max (min_turns_to_keep cfg) (int (length turns) div 3)"
  have kpos: "0 < k" using assms(3) by (simp add: k_def)
  have a: "py_slice_to (- k) turns = take (length turns - nat k) turns"
    using kpos by (simp add: py_slice_to_def)
  have b: "py_slice_from (- k) turns = drop (length turns - nat k) turns"
    using kpos by (simp add: py_slice_from_def)
  have c: "length turns - (length turns - nat k) = min (nat k) (length turns)"
    by linarith
  have "summary (compact so cfg turns) = summarize_turns so cfg (take (length turns - nat k) turns)"
    unfolding over_budget_summary [OF assms(1,2)] k_def [symmetric] a ..
  moreover have "compacted_turns (compact so cfg turns) = length turns - nat k"
    unfolding over_budget_compacted [OF assms(1,2)] k_def [symmetric] a by simp
  moreover have "kept_turns (compact so cfg turns) = min (nat k) (length turns)"
    unfolding over_budget_kept [OF assms(1,2)] k_def [symmetric] b using c by simp
  ultimately show ?thesis unfolding k_def by blast
qed

subsection \<open>A sentence with a commitment verb and a keyword becomes a fact\<close>

lemma lower_meatless: "lower ''I commit to Meatless Mondays'' = ''i commit to meatless mondays''"
  by code_simp

lemma meatless_no_sentence_end: "\<forall>c \<in> set ''I commit to Meatless Mondays''. \<not> is_sentence_end c"
  by (simp add: is_sentence_end_def)

lemma commitment_fact_extracted:
  assumes "''commit'' \<in> set (priority_keywords cfg)"
  shows "\<exists>f \<in> set (commitment_facts cfg (p @ ''I commit to Meatless Mondays'' @ q)).
           is_meatless_commitment f"
proof -
  let ?t = "''I commit to Meatless Mondays''"
  obtain s a b where s: "s \<in> set (split_on is_sentence_end (p @ ?t @ q))" "s = a @ ?t @ b"
    using split_on_keeps [OF meatless_no_sentence_end, of p q] by blast
  have "lower s = lower a @ lower ?t @ lower b"
    by (simp only: s(2) lower_append)
  then have "lower s = lower a @ ''i commit to meatless mondays'' @ lower b"
    by (simp only: lower_meatless)
  then have "lower s = (lower a @ ''i '') @ ''commit'' @ ('' to meatless mondays'' @ lower b)"
    by simp
  then have c: "contains ''commit'' (lower s)"
    unfolding contains_iff by blast
  have w: "list_ex (\<lambda>word. contains word (lower s)) commitment_words"
    unfolding list_ex_iff using c by (auto simp: commitment_words_def)
  have k: "list_ex (\<lambda>kw. contains kw (lower s)) (priority_keywords cfg)"
    unfolding list_ex_iff using c assms by blast
  have "\<not> is_space (hd ?t)" "\<not> is_space (last ?t)" "?t \<noteq> []"
    by (simp_all add: is_space_def code_point_def)
  then obtain a' b' where st: "strip s = a' @ ?t @ b'"
    using strip_keeps [of ?t a b] s(2) by blast
  let ?f = "''Commitment: '' @ strip s"
  have "?f \<in> set (commitment_facts cfg (p @ ?t @ q))"
    unfolding commitment_facts_def using s(1) w k by (auto simp: Let_def)
  moreover have "?f = (''Commitment: '' @ a' @ ''I commit to '') @ ''Meatless Mondays'' @ b'"
    by (simp add: st)
  then have "contains ''Meatless Mondays'' ?f"
    unfolding contains_iff by blast
  moreover have "take 11 ?f = ''Commitment:''" by simp
  ultimately show ?thesis
    unfolding is_meatless_commitment_def by blast
qed

lemma fact_in_extract:
  assumes "set_order so" and "f \<in> set (commitment_facts cfg text)"
  shows "f \<in> set (extract_key_facts so cfg text)"
  using assms by (simp add: extract_key_facts_def Let_def set_order_def)

lemma extract_distinct: "set_order so \<Longrightarrow> distinct (extract_key_facts so cfg text)"
  by (simp add: extract_key_facts_def Let_def set_order_def)

subsection \<open>The example conversations\<close>

lemma two_turns_joined: "join '' '' (map turn_content two_turns) = ''abcd efgh''"
  by (simp add: two_turns_def user_turn_def turn_content_def)

lemma two_turns_over_budget:
  "max_tokens no_minimum_config < estimate_tokens (join '' '' (map turn_content two_turns))"
  unfolding two_turns_joined
  by (simp add: estimate_tokens_def no_minimum_config_def default_config_def)

lemma two_turns_keep_count:
  "max (min_turns_to_keep no_minimum_config) (int (length two_turns) div 3) = 0"
  by (simp add: no_minimum_config_def default_config_def two_turns_def)

lemma meatless_turns_joined:
  "join '' '' (map turn_content meatless_turns)
     = ''hi ok yes no I commit to Meatless Mondays fine well so and bye''"
  by (simp add: meatless_turns_def user_turn_def turn_content_def)

lemma crowded_turns_joined:
  "join '' '' (map turn_content crowded_turns)
     = ''will a.will b.will c.will d.will e.will f.will g.will h.will i.will j. ok yes no I commit to Meatless Mondays fine well so and bye''"
  by (simp add: crowded_turns_def user_turn_def turn_content_def)

lemma quiet_start_turns_joined:
  "join '' '' (map turn_content quiet_start_turns) = ''hello there hi ok I will reduce meat.''"
  by (simp add: quiet_start_turns_def user_turn_def turn_content_def)

lemma set_order_single: "set_order so \<Longrightarrow> so [x] = [x]"
proof -
  assume a: "set_order so"
  then have s: "set (so [x]) = {x}" and d: "distinct (so [x])"
    by (simp_all add: set_order_def)
  from d have "length (so [x]) = card (set (so [x]))"
    by (simp add: distinct_card)
  with s have "length (so [x]) = 1" by simp
  then obtain y where "so [x] = [y]"
    by (cases "so [x]") auto
  with s show ?thesis by simp
qed

lemma hello_there_facts:
  assumes "set_order so"
  shows "extract_key_facts so budget_one_config ''hello there'' = []"
proof -
  have 1: "re_finditer co2_pattern (lower ''hello there'') = []" by code_simp
  have 2: "commitment_facts budget_one_config ''hello there'' = []" by code_simp
  have 3: "preference_facts (lower ''hello there'') = []" by code_simp
  show ?thesis
    unfolding extract_key_facts_def Let_def 1 2 3
    using set_order_Nil [OF assms] by simp
qed

lemma hello_there_topics: "turn_topics (user_turn ''hello there'') = []"
  by code_simp

lemma summarize_hello_there:
  assumes "set_order so"
  shows "summarize_turns so budget_one_config [user_turn ''hello there''] = []"
proof -
  have t: "turn_content (user_turn ''hello there'') = ''hello there''"
    by (simp add: user_turn_def turn_content_def)
  have m: "summary_max_length budget_one_config = 500"
    by (simp add: budget_one_config_def default_config_def)
  show ?thesis
    unfolding summarize_turns_def Let_def
    by (simp add: hello_there_topics t hello_there_facts [OF assms] m)
qed

lemma extract_quiet_start:
  assumes "set_order so"
  shows "extract_key_facts so budget_one_config ''hello there hi ok I will reduce meat.''
           = [''Commitment: hello there hi ok I will reduce meat'']"
proof -
  have 1: "re_finditer co2_pattern (lower ''hello there hi ok I will reduce meat.'') = []"
    by code_simp
  have 2: "commitment_facts budget_one_config ''hello there hi ok I will reduce meat.''
             = [''Commitment: hello there hi ok I will reduce meat'']"
    by code_simp
  have 3: "preference_facts (lower ''hello there hi ok I will reduce meat.'') = []"
    by code_simp
  show ?thesis
    unfolding extract_key_facts_def Let_def 1 2 3
    using set_order_single [OF assms] by simp
qed

section \<open>Properties of the memory service\<close>

subsection \<open>Footprint history\<close>

lemma record_footprint_history:
  "footprint_history (snd (record_footprint uid c a e d w)) uid
     = Some ((case footprint_history w uid of None \<Rightarrow> [] | Some rs \<Rightarrow> rs)
             @ [\<lparr>record_id = ''fp_'' @ uuids w (uuid_draws w), user_id_f = uid,
                 timestamp_f = clock w (clock_reads w), category_f = c, activity = a,
                 emissions_kg_co2 = e,
                 details = (case d of None \<Rightarrow> [] | Some x \<Rightarrow> x)\<rparr>])"
  by (simp add: record_footprint_def add_memory_def generate_id_def now_isoformat_def
      Let_def split_def)

lemma history_records_unfiltered:
  "history_records uid None w = (case footprint_history w uid of None \<Rightarrow> [] | Some rs \<Rightarrow> rs)"
  by (simp add: history_records_def)

lemma history_after_record:
  "history_records uid None (snd (record_footprint uid c a e d w))
     = history_records uid None w
       @ [\<lparr>record_id = ''fp_'' @ uuids w (uuid_draws w), user_id_f = uid,
           timestamp_f = clock w (clock_reads w), category_f = c, activity = a,
           emissions_kg_co2 = e,
           details = (case d of None \<Rightarrow> [] | Some x \<Rightarrow> x)\<rparr>]"
  unfolding history_records_unfiltered record_footprint_history by simp

lemma trend_of_history:
  "dict_get (get_footprint_history uid category days w) ''trend''
     = Some (VStr (trend (history_records uid category w)))"
  by (simp add: get_footprint_history_def dict_get_def Let_def)

lemma trend_improving:
  "trend rs = ''improving''
     \<longleftrightarrow> 2 \<le> length rs \<and> emissions_kg_co2 (last rs) < emissions_kg_co2 (hd rs)"
  by (auto simp: trend_def)

lemma trend_needs_attention:
  "trend rs = ''needs_attention''
     \<longleftrightarrow> \<not> (2 \<le> length rs \<and> emissions_kg_co2 (last rs) < emissions_kg_co2 (hd rs))"
  by (auto simp: trend_def)

subsection \<open>Profiles\<close>

lemma add_memory_appends:
  "memories (snd (add_memory uid app txt cat md w))
     = (memories w)(uid \<mapsto> stored_memories w uid
          @ [\<lparr>entry_id = ''mem_'' @ uuids w (uuid_draws w), user_id_m = uid, app_name = app,
              content_m = txt, category_m = cat, timestamp_m = clock w (clock_reads w),
              metadata = (case md of None \<Rightarrow> [] | Some d \<Rightarrow> d), embedding = None\<rparr>])"
  by (simp add: add_memory_def generate_id_def now_isoformat_def stored_memories_def
      Let_def split_def)

lemma add_memory_keeps:
  "profiles (snd (add_memory uid app txt cat md w)) = profiles w"
  "heap (snd (add_memory uid app txt cat md w)) = heap w"
  "footprint_history (snd (add_memory uid app txt cat md w)) = footprint_history w"
  by (simp_all add: add_memory_def generate_id_def now_isoformat_def Let_def split_def)

lemma save_profile_unshadowed:
  assumes "''to_dict'' \<notin> set (map fst (inst_attrs (heap w ref)))"
  shows "save_profile ref w =
     (let ts = clock w (clock_reads w);
          obj = (heap w ref)\<lparr>data := (data (heap w ref))\<lparr>updated_at := ts\<rparr>\<rparr>;
          w3 = w\<lparr>clock_reads := Suc (clock_reads w), heap := (heap w)(ref := obj),
                 profiles := (profiles w)(user_id (data (heap w ref)) \<mapsto> ref)\<rparr>
      in (Inr [(''status'', VStr ''success''), (''user_id'', VStr (user_id (data (heap w ref)))),
               (''message'', VStr ''Profile saved'')],
          snd (add_memory (user_id (data (heap w ref))) ''climateguard''
                 (profile_summary (data (heap w ref))) ''profile''
                 (Some (profile_asdict ((data (heap w ref))\<lparr>updated_at := ts\<rparr>))) w3)))"
  using assms
  by (simp add: save_profile_def now_isoformat_def to_dict_def Let_def split_def
      profile_summary_def)

lemma update_profile_not_found:
  assumes "profiles w uid = None"
  shows "update_profile uid updates w
           = (Inr [(''status'', VStr ''error''),
                   (''message'', VStr (''Profile not found for user '' @ uid))], w)"
  using assms by (simp add: update_profile_def)

lemma apply_updates_unrecognized:
  assumes "\<forall>key \<in> set (map fst updates). \<not> is_dunder key \<and> \<not> hasattr obj key"
  shows "apply_updates updates obj = Inr obj"
  using assms by (induction updates) auto

subsection \<open>Search\<close>






















section \<open>Claims about the compactor\<close>

text \<open>
  C1. A turn sequence whose estimated token count is at most \<open>max_tokens\<close> is neither
  truncated nor summarized: no turn is compacted, the summary is empty, the token counts
  agree, the ratio is 1, every turn is kept, and the preserved facts are the facts of the
  joined text.
\<close>

theorem compact_within_budget:
  assumes "set_order so"
    and "estimate_tokens (join '' '' (map turn_content turns)) \<le> max_tokens cfg"
  shows "compacted_turns (compact so cfg turns) = 0
       \<and> summary (compact so cfg turns) = []
       \<and> compacted_tokens (compact so cfg turns) = original_tokens (compact so cfg turns)
       \<and> compression_ratio (compact so cfg turns) = 1
       \<and> kept_turns (compact so cfg turns) = length turns
       \<and> preserved_facts (compact so cfg turns)
           = extract_key_facts so cfg (join '' '' (map turn_content turns))"
proof (cases "turns = []")
  case True
  then show ?thesis
    using assms(1) by (simp add: compact_def extract_key_facts_Nil)
next
  case False
  then show ?thesis
    using assms(2) by (simp add: compact_def Let_def)
qed

theorem compact_within_budget_witness:
  "set_order remdups
   \<and> estimate_tokens (join '' '' (map turn_content meatless_turns)) \<le> max_tokens default_config
   \<and> compacted_turns (compact remdups default_config meatless_turns) = 0
   \<and> summary (compact remdups default_config meatless_turns) = []
   \<and> compacted_tokens (compact remdups default_config meatless_turns)
       = original_tokens (compact remdups default_config meatless_turns)
   \<and> compression_ratio (compact remdups default_config meatless_turns) = 1
   \<and> kept_turns (compact remdups default_config meatless_turns) = length meatless_turns
   \<and> preserved_facts (compact remdups default_config meatless_turns)
       = extract_key_facts remdups default_config (join '' '' (map turn_content meatless_turns))"
proof -
  have b: "estimate_tokens (join '' '' (map turn_content meatless_turns)) \<le> max_tokens default_config"
    by (simp add: estimate_tokens_def meatless_turns_def user_turn_def turn_content_def
        default_config_def)
  show ?thesis
    using set_order_remdups b compact_within_budget [OF set_order_remdups b] by blast
qed

text \<open>
  C2. With \<open>keep_count = max(min_turns_to_keep, len(turns) // 3)\<close> the claim has the first
  \<open>len(turns) - keep_count\<close> turns summarized and the last \<open>keep_count\<close> kept. The code
  slices with \<open>turns[:-keep_count]\<close> and \<open>turns[-keep_count:]\<close>, and at \<open>keep_count = 0\<close>
  these are the empty list and the whole list: with no minimum configured, an over-budget
  conversation of two turns is kept whole and nothing is summarized.
\<close>

theorem compact_keep_count_zero:
  "max_tokens no_minimum_config < estimate_tokens (join '' '' (map turn_content two_turns))
   \<and> max (min_turns_to_keep no_minimum_config) (int (length two_turns) div 3) = 0
   \<and> kept_turns (compact so no_minimum_config two_turns) = 2
   \<and> compacted_turns (compact so no_minimum_config two_turns) = 0
   \<and> summary (compact so no_minimum_config two_turns) = []"
proof -
  have t: "two_turns \<noteq> []"
    by (simp add: two_turns_def)
  note b = two_turns_over_budget
  have a: "py_slice_to (- 0) two_turns = []"
    by (simp add: py_slice_to_def)
  have f: "py_slice_from (- 0) two_turns = two_turns"
    by (simp add: py_slice_from_def)
  have "kept_turns (compact so no_minimum_config two_turns) = 2"
    unfolding over_budget_kept [OF t b] two_turns_keep_count f
    by (simp add: two_turns_def)
  moreover have "compacted_turns (compact so no_minimum_config two_turns) = 0"
    unfolding over_budget_compacted [OF t b] two_turns_keep_count a
    by simp
  moreover have "summary (compact so no_minimum_config two_turns) = []"
    unfolding over_budget_summary [OF t b] two_turns_keep_count a
    by (simp add: summarize_turns_def)
  ultimately show ?thesis
    using b two_turns_keep_count by blast
qed

text \<open>
  C3, as the code has it. The preserved facts are always among the facts of the joined text,
  without repetition, and there are some whenever the text has facts. Only a sequence over
  budget is cut to the first ten facts; a sequence within budget keeps every fact.
\<close>

theorem preserved_facts_subset:
  assumes "set_order so"
  shows "preserved_facts (compact so cfg turns)
           = (if turns \<noteq> [] \<and> max_tokens cfg < estimate_tokens (join '' '' (map turn_content turns))
              then take 10 (extract_key_facts so cfg (join '' '' (map turn_content turns)))
              else extract_key_facts so cfg (join '' '' (map turn_content turns)))
       \<and> set (preserved_facts (compact so cfg turns))
           \<subseteq> set (extract_key_facts so cfg (join '' '' (map turn_content turns)))
       \<and> distinct (preserved_facts (compact so cfg turns))
       \<and> (preserved_facts (compact so cfg turns) = []
            \<longleftrightarrow> extract_key_facts so cfg (join '' '' (map turn_content turns)) = [])"
proof (cases "turns \<noteq> [] \<and> max_tokens cfg < estimate_tokens (join '' '' (map turn_content turns))")
  case True
  then have "preserved_facts (compact so cfg turns)
               = take 10 (extract_key_facts so cfg (join '' '' (map turn_content turns)))"
    by (simp add: over_budget_facts)
  with True extract_distinct [OF assms, of cfg "join '' '' (map turn_content turns)"]
  show ?thesis
    by (auto dest: in_set_takeD)
next
  case False
  then have "preserved_facts (compact so cfg turns)
               = extract_key_facts so cfg (join '' '' (map turn_content turns))"
    by (rule within_budget_facts [OF assms])
  with False extract_distinct [OF assms, of cfg "join '' '' (map turn_content turns)"]
  show ?thesis
    by auto
qed

theorem preserved_facts_subset_witness:
  "set_order remdups
   \<and> preserved_facts (compact remdups tight_config [user_turn eleven_commitments])
      = take 10 (extract_key_facts remdups tight_config eleven_commitments)
   \<and> length (preserved_facts (compact remdups tight_config [user_turn eleven_commitments])) = 10"
proof -
  have e: "extract_key_facts remdups tight_config eleven_commitments
             = [''Commitment: will a'', ''Commitment: will b'', ''Commitment: will c'',
                ''Commitment: will d'', ''Commitment: will e'', ''Commitment: will f'',
                ''Commitment: will g'', ''Commitment: will h'', ''Commitment: will i'',
                ''Commitment: will j'', ''Commitment: will k'']"
    by code_simp
  have j: "turn_content (user_turn eleven_commitments) = eleven_commitments"
    by (simp add: user_turn_def turn_content_def)
  have b: "max_tokens tight_config < estimate_tokens eleven_commitments"
    by (simp add: tight_config_def default_config_def estimate_tokens_def eleven_commitments_def)
  have "preserved_facts (compact remdups tight_config [user_turn eleven_commitments])
          = take 10 (extract_key_facts remdups tight_config eleven_commitments)"
    using preserved_facts_subset [OF set_order_remdups, of tight_config "[user_turn eleven_commitments]"] b
    by (simp add: j)
  then show ?thesis
    using set_order_remdups by (simp add: e)
qed

theorem preserved_facts_not_capped_within_budget:
  "estimate_tokens (join '' '' (map turn_content [user_turn eleven_commitments]))
     \<le> max_tokens default_config
   \<and> length (preserved_facts (compact remdups default_config [user_turn eleven_commitments])) = 11
   \<and> length (extract_key_facts remdups default_config
               (join '' '' (map turn_content [user_turn eleven_commitments]))) = 11"
proof -
  have e: "extract_key_facts remdups default_config eleven_commitments
             = [''Commitment: will a'', ''Commitment: will b'', ''Commitment: will c'',
                ''Commitment: will d'', ''Commitment: will e'', ''Commitment: will f'',
                ''Commitment: will g'', ''Commitment: will h'', ''Commitment: will i'',
                ''Commitment: will j'', ''Commitment: will k'']"
    by code_simp
  have j: "turn_content (user_turn eleven_commitments) = eleven_commitments"
    by (simp add: user_turn_def turn_content_def)
  have b: "estimate_tokens eleven_commitments \<le> max_tokens default_config"
    by (simp add: default_config_def estimate_tokens_def eleven_commitments_def)
  have "preserved_facts (compact remdups default_config [user_turn eleven_commitments])
          = extract_key_facts remdups default_config eleven_commitments"
    using b by (simp add: compact_def Let_def j)
  then show ?thesis
    using b by (simp add: e j)
qed

text \<open>
  C4, as the code has it. With \<open>min_turns_to_keep = 3\<close> and \<open>commit\<close> among the priority
  keywords (as in the default list), a ten-turn conversation over budget whose fifth turn
  contains \<open>I commit to Meatless Mondays\<close> keeps exactly three turns, and the preserved
  facts contain a fact that begins with \<open>Commitment:\<close> and includes \<open>Meatless Mondays\<close>,
  provided the joined text has at most ten facts. (With more, the cut to ten facts may
  drop it.)
\<close>

theorem meatless_scenario:
  assumes "set_order so"
    and "min_turns_to_keep cfg = 3"
    and "''commit'' \<in> set (priority_keywords cfg)"
    and "length turns = 10"
    and "contains ''I commit to Meatless Mondays'' (turn_content (turns ! 4))"
    and "max_tokens cfg < estimate_tokens (join '' '' (map turn_content turns))"
    and "length (extract_key_facts so cfg (join '' '' (map turn_content turns))) \<le> 10"
  shows "kept_turns (compact so cfg turns) = 3
       \<and> list_ex is_meatless_commitment (preserved_facts (compact so cfg turns))"
proof -
  let ?T = "join '' '' (map turn_content turns)"
  have ne: "turns \<noteq> []" using assms(4) by auto
  have k3: "max (min_turns_to_keep cfg) (int (length turns) div 3) = 3"
    by (simp add: assms(2) assms(4))
  have "py_slice_from (- 3) turns = drop (length turns - 3) turns"
    by (simp add: py_slice_from_def)
  then have "length (py_slice_from (- 3) turns) = 3"
    by (simp add: assms(4))
  then have kept: "kept_turns (compact so cfg turns) = 3"
    unfolding over_budget_kept [OF ne assms(6)] k3 .
  have "4 < length turns"
    by (simp add: assms(4))
  then have "turns ! 4 \<in> set turns"
    by (rule nth_mem)
  then have "turn_content (turns ! 4) \<in> set (map turn_content turns)"
    by (simp only: set_map image_eqI)
  then obtain a b where "?T = a @ turn_content (turns ! 4) @ b"
    using join_keeps by blast
  moreover obtain p q where "turn_content (turns ! 4) = p @ ''I commit to Meatless Mondays'' @ q"
    using assms(5) unfolding contains_iff by blast
  ultimately have T: "?T = (a @ p) @ ''I commit to Meatless Mondays'' @ (q @ b)"
    by simp
  obtain f where f: "f \<in> set (commitment_facts cfg ?T)" "is_meatless_commitment f"
    using commitment_fact_extracted [OF assms(3), of "a @ p" "q @ b"] unfolding T by blast
  have "f \<in> set (extract_key_facts so cfg ?T)"
    using fact_in_extract [OF assms(1) f(1)] .
  moreover have "preserved_facts (compact so cfg turns) = extract_key_facts so cfg ?T"
    using over_budget_facts [OF ne assms(6), of so] assms(7) by simp
  ultimately have "list_ex is_meatless_commitment (preserved_facts (compact so cfg turns))"
    unfolding list_ex_iff using f(2) by auto
  with kept show ?thesis by simp
qed

theorem meatless_scenario_witness:
  "set_order remdups
   \<and> min_turns_to_keep tight_config = 3
   \<and> ''commit'' \<in> set (priority_keywords tight_config)
   \<and> length meatless_turns = 10
   \<and> contains ''I commit to Meatless Mondays'' (turn_content (meatless_turns ! 4))
   \<and> max_tokens tight_config < estimate_tokens (join '' '' (map turn_content meatless_turns))
   \<and> length (extract_key_facts remdups tight_config (join '' '' (map turn_content meatless_turns)))
        \<le> 10
   \<and> kept_turns (compact remdups tight_config meatless_turns) = 3
   \<and> list_ex is_meatless_commitment (preserved_facts (compact remdups tight_config meatless_turns))"
proof -
  have h2: "min_turns_to_keep tight_config = 3"
    by (simp add: tight_config_def default_config_def)
  have h3: "''commit'' \<in> set (priority_keywords tight_config)"
    by (simp add: tight_config_def default_config_def default_keywords_def)
  have h4: "length meatless_turns = 10"
    by (simp add: meatless_turns_def)
  have h5: "contains ''I commit to Meatless Mondays'' (turn_content (meatless_turns ! 4))"
    by (simp add: meatless_turns_def user_turn_def turn_content_def)
  have h6: "max_tokens tight_config < estimate_tokens (join '' '' (map turn_content meatless_turns))"
    unfolding meatless_turns_joined
    by (simp add: tight_config_def default_config_def estimate_tokens_def)
  have e: "extract_key_facts remdups tight_config
             ''hi ok yes no I commit to Meatless Mondays fine well so and bye''
           = [''Commitment: hi ok yes no I commit to Meatless Mondays fine well so and bye'']"
    by code_simp
  have h7: "length (extract_key_facts remdups tight_config
                      (join '' '' (map turn_content meatless_turns))) \<le> 10"
    unfolding meatless_turns_joined e by simp
  show ?thesis
    using set_order_remdups h2 h3 h4 h5 h6 h7
      meatless_scenario [OF set_order_remdups h2 h3 h4 h5 h6 h7]
    by blast
qed

text \<open>
  The claim C4 as stated fails when the joined text has more than ten facts. In
  \<open>crowded_turns\<close> the first turn alone has ten sentences that become commitment facts, the
  fifth turn has \<open>I commit to Meatless Mondays\<close>, so the text has eleven facts and one is
  cut. Which one depends on the order of the set; with the facts in the order they were
  found, it is the fact with \<open>Meatless Mondays\<close>.
\<close>

theorem meatless_fact_cut_off:
  "min_turns_to_keep tight_config = 3
   \<and> length crowded_turns = 10
   \<and> contains ''I commit to Meatless Mondays'' (turn_content (crowded_turns ! 4))
   \<and> max_tokens tight_config < estimate_tokens (join '' '' (map turn_content crowded_turns))
   \<and> length (extract_key_facts remdups tight_config (join '' '' (map turn_content crowded_turns)))
        = 11
   \<and> \<not> list_ex is_meatless_commitment (preserved_facts (compact remdups tight_config crowded_turns))"
proof -
  have h2: "min_turns_to_keep tight_config = 3"
    by (simp add: tight_config_def default_config_def)
  have h4: "length crowded_turns = 10"
    by (simp add: crowded_turns_def)
  have h5: "contains ''I commit to Meatless Mondays'' (turn_content (crowded_turns ! 4))"
    by (simp add: crowded_turns_def user_turn_def turn_content_def)
  have ne: "crowded_turns \<noteq> []"
    by (simp add: crowded_turns_def)
  have h6: "max_tokens tight_config < estimate_tokens (join '' '' (map turn_content crowded_turns))"
    unfolding crowded_turns_joined
    by (simp add: tight_config_def default_config_def estimate_tokens_def)
  have e: "extract_key_facts remdups tight_config
             ''will a.will b.will c.will d.will e.will f.will g.will h.will i.will j. ok yes no I commit to Meatless Mondays fine well so and bye''
           = [''Commitment: will a'', ''Commitment: will b'', ''Commitment: will c'',
              ''Commitment: will d'', ''Commitment: will e'', ''Commitment: will f'',
              ''Commitment: will g'', ''Commitment: will h'', ''Commitment: will i'',
              ''Commitment: will j'',
              ''Commitment: ok yes no I commit to Meatless Mondays fine well so and bye'']"
    by code_simp
  have l: "length (extract_key_facts remdups tight_config
                     (join '' '' (map turn_content crowded_turns))) = 11"
    unfolding crowded_turns_joined e by simp
  have p: "preserved_facts (compact remdups tight_config crowded_turns)
             = [''Commitment: will a'', ''Commitment: will b'', ''Commitment: will c'',
                ''Commitment: will d'', ''Commitment: will e'', ''Commitment: will f'',
                ''Commitment: will g'', ''Commitment: will h'', ''Commitment: will i'',
                ''Commitment: will j'']"
    unfolding over_budget_facts [OF ne h6] crowded_turns_joined e by simp
  have n: "\<not> list_ex is_meatless_commitment (preserved_facts (compact remdups tight_config crowded_turns))"
    unfolding p by code_simp
  show ?thesis
    using h2 h4 h5 h6 l n by blast
qed

text \<open>
  C9. \<open>get_compacted_context\<close> returns the empty string when the summary is empty, and the
  summary is empty not only within budget: over budget too, when the summarized turns have
  no topic and no fact. In \<open>quiet_start_turns\<close> with a budget of one token the only
  summarized turn is \<open>hello there\<close>; the conversation is over budget, a commitment fact is
  preserved, and the context is empty, with no summary line and no line of preserved facts.
  This holds in every order of the sets.
\<close>

theorem context_empty_over_budget:
  assumes "set_order so"
  shows "max_tokens budget_one_config
           < estimate_tokens (join '' '' (map turn_content quiet_start_turns))
       \<and> compacted_turns (compact so budget_one_config quiet_start_turns) = 1
       \<and> preserved_facts (compact so budget_one_config quiet_start_turns)
           = [''Commitment: hello there hi ok I will reduce meat'']
       \<and> get_compacted_context so budget_one_config quiet_start_turns = []"
proof -
  have ne: "quiet_start_turns \<noteq> []"
    by (simp add: quiet_start_turns_def)
  have b: "max_tokens budget_one_config
             < estimate_tokens (join '' '' (map turn_content quiet_start_turns))"
    unfolding quiet_start_turns_joined
    by (simp add: budget_one_config_def default_config_def estimate_tokens_def)
  have k: "max (min_turns_to_keep budget_one_config) (int (length quiet_start_turns) div 3) = 3"
    by (simp add: budget_one_config_def default_config_def quiet_start_turns_def)
  have a: "py_slice_to (- 3) quiet_start_turns = [user_turn ''hello there'']"
    by (simp add: py_slice_to_def quiet_start_turns_def)
  have c: "compacted_turns (compact so budget_one_config quiet_start_turns) = 1"
    unfolding over_budget_compacted [OF ne b] k a by simp
  have s: "summary (compact so budget_one_config quiet_start_turns) = []"
    unfolding over_budget_summary [OF ne b] k a
    by (rule summarize_hello_there [OF assms])
  have p: "preserved_facts (compact so budget_one_config quiet_start_turns)
             = [''Commitment: hello there hi ok I will reduce meat'']"
    unfolding over_budget_facts [OF ne b] quiet_start_turns_joined
      extract_quiet_start [OF assms] by simp
  have "get_compacted_context so budget_one_config quiet_start_turns = []"
    unfolding get_compacted_context_def Let_def s by simp
  with b c p show ?thesis
    by blast
qed

theorem context_empty_over_budget_witness:
  "set_order remdups
   \<and> max_tokens budget_one_config
       < estimate_tokens (join '' '' (map turn_content quiet_start_turns))
   \<and> compacted_turns (compact remdups budget_one_config quiet_start_turns) = 1
   \<and> preserved_facts (compact remdups budget_one_config quiet_start_turns)
       = [''Commitment: hello there hi ok I will reduce meat'']
   \<and> get_compacted_context remdups budget_one_config quiet_start_turns = []"
  using set_order_remdups context_empty_over_budget [OF set_order_remdups] by blast

section \<open>Claims about the memory service\<close>

text \<open>
  Claim C8. \<open>get_footprint_history\<close> computes the trend on the records of the identity
  that the category filter leaves: all of them when no category is given (\<open>None\<close>, or the
  empty string, which \<open>if category:\<close> takes for none), and otherwise those whose category
  is the one given, in the order they were recorded. The trend is \<open>improving\<close> exactly
  when that list has at least two records and its last record has strictly less emissions
  than its first, and \<open>needs_attention\<close> otherwise. In particular, when nothing is recorded
  yet for an identity, two calls of \<open>record_footprint\<close> for it with 10.5 and then 8.0 give
  the trend \<open>improving\<close>.
\<close>

theorem trend_label:
  fixes v :: world and u :: string and category :: "string option"
  defines "rs \<equiv> (case footprint_history v u of None \<Rightarrow> [] | Some xs \<Rightarrow> xs)"
  defines "fs \<equiv> (case category of
                    None \<Rightarrow> rs
                  | Some c \<Rightarrow> if c = [] then rs else filter (\<lambda>r. category_f r = c) rs)"
  assumes "(case footprint_history w uid of None \<Rightarrow> [] | Some xs \<Rightarrow> xs) = []"
  shows "(dict_get (get_footprint_history u category days v) ''trend'' = Some (VStr ''improving'')
            \<longleftrightarrow> 2 \<le> length fs
                \<and> emissions_kg_co2 (last fs) < emissions_kg_co2 (hd fs))
       \<and> (dict_get (get_footprint_history u category days v) ''trend''
              = Some (VStr ''needs_attention'')
            \<longleftrightarrow> \<not> (2 \<le> length fs
                   \<and> emissions_kg_co2 (last fs) < emissions_kg_co2 (hd fs)))
       \<and> dict_get (get_footprint_history uid None days
                     (snd (record_footprint uid c2 a2 8 d2
                        (snd (record_footprint uid c1 a1 10.5 d1 w))))) ''trend''
           = Some (VStr ''improving'')"
proof -
  let ?w1 = "snd (record_footprint uid c1 a1 10.5 d1 w)"
  let ?w2 = "snd (record_footprint uid c2 a2 8 d2 ?w1)"
  have f: "history_records u category v = fs"
    unfolding fs_def rs_def history_records_def by (simp add: Let_def)
  have e: "history_records uid None w = []"
    unfolding history_records_unfiltered by (rule assms(3))
  have "trend (history_records uid None ?w2) = ''improving''"
    unfolding history_after_record [of uid c2 a2 8 d2 ?w1]
      history_after_record [of uid c1 a1 "10.5" d1 w] e
    by (simp add: trend_def)
  then show ?thesis
    unfolding trend_of_history f [symmetric]
    using trend_improving trend_needs_attention by simp
qed

theorem trend_label_witness:
  "(case footprint_history new_service ''u1'' of None \<Rightarrow> [] | Some xs \<Rightarrow> xs) = []
   \<and> dict_get (get_footprint_history ''u1'' None 30 (two_measurements ''u1'' new_service)) ''trend''
       = Some (VStr ''improving'')
   \<and> dict_get (get_footprint_history ''u1'' (Some ''food'') 30
                 (two_measurements ''u1'' new_service)) ''trend''
       = Some (VStr ''needs_attention'')"
proof -
  have h: "(case footprint_history new_service ''u1'' of None \<Rightarrow> [] | Some xs \<Rightarrow> xs) = []"
    by (simp add: new_service_def)
  have r: "map category_f
             (case footprint_history (two_measurements ''u1'' new_service) ''u1'' of
                None \<Rightarrow> [] | Some xs \<Rightarrow> xs)
           = [''food'', ''transport'']"
    unfolding two_measurements_def record_footprint_history
    by (simp add: new_service_def)
  have l: "length (filter (\<lambda>r. category_f r = ''food'')
             (case footprint_history (two_measurements ''u1'' new_service) ''u1'' of
                None \<Rightarrow> [] | Some xs \<Rightarrow> xs)) = 1"
    using r by (auto simp: map_eq_Cons_conv)
  have a: "dict_get (get_footprint_history ''u1'' None 30 (two_measurements ''u1'' new_service))
             ''trend'' = Some (VStr ''improving'')"
    unfolding two_measurements_def using trend_label [OF h] by blast
  have b: "dict_get (get_footprint_history ''u1'' (Some ''food'') 30
                       (two_measurements ''u1'' new_service)) ''trend''
             = Some (VStr ''needs_attention'')"
    using trend_label [OF h, of "''u1''" "Some ''food''" 30 "two_measurements ''u1'' new_service"] l
    by simp
  from h a b show ?thesis
    by blast
qed

text \<open>
  Claim C5, as the code has it. \<open>save_profile\<close> checks nothing: no identity is refused.
  For every profile object whose \<open>to_dict\<close> is the method of the class, it returns the
  success dictionary, stamps \<open>updated_at\<close>, stores the object under its identity, in place
  of what was stored there, and appends to the memories of that identity one entry of
  category \<open>profile\<close> whose content names the diet, the transport and the city and whose
  metadata is the profile as a dictionary.
\<close>

theorem save_profile_upserts:
  assumes "''to_dict'' \<notin> set (map fst (inst_attrs (heap w ref)))"
  shows "fst (save_profile ref w)
           = Inr [(''status'', VStr ''success''), (''user_id'', VStr (user_id (data (heap w ref)))),
                  (''message'', VStr ''Profile saved'')]
       \<and> profiles (snd (save_profile ref w)) = (profiles w)(user_id (data (heap w ref)) \<mapsto> ref)
       \<and> heap (snd (save_profile ref w))
           = (heap w)(ref := (heap w ref)
                \<lparr>data := (data (heap w ref))\<lparr>updated_at := clock w (clock_reads w)\<rparr>\<rparr>)
       \<and> memories (snd (save_profile ref w))
           = (memories w)(user_id (data (heap w ref)) \<mapsto>
                stored_memories w (user_id (data (heap w ref)))
                @ [\<lparr>entry_id = ''mem_'' @ uuids w (uuid_draws w),
                    user_id_m = user_id (data (heap w ref)), app_name = ''climateguard'',
                    content_m = ''User profile: '' @ diet_type (data (heap w ref)) @ '' diet, ''
                      @ primary_transport (data (heap w ref)) @ '' transport, lives in ''
                      @ city (data (heap w ref)),
                    category_m = ''profile'',
                    timestamp_m = clock w (Suc (clock_reads w)),
                    metadata = profile_asdict
                      ((data (heap w ref))\<lparr>updated_at := clock w (clock_reads w)\<rparr>),
                    embedding = None\<rparr>])"
  unfolding save_profile_unshadowed [OF assms] Let_def
  by (simp add: add_memory_appends add_memory_keeps stored_memories_def profile_summary_def)

theorem save_profile_upserts_witness:
  "''to_dict'' \<notin> set (map fst (inst_attrs (heap (snd (fresh_profile ''u1'' new_service))
                                            (fst (fresh_profile ''u1'' new_service)))))
   \<and> fst (save_profile (fst (fresh_profile ''u1'' new_service))
                        (snd (fresh_profile ''u1'' new_service)))
       = Inr [(''status'', VStr ''success''), (''user_id'', VStr ''u1''),
              (''message'', VStr ''Profile saved'')]
   \<and> profiles (snd (save_profile (fst (fresh_profile ''u1'' new_service))
                                  (snd (fresh_profile ''u1'' new_service)))) ''u1''
       = Some (fst (fresh_profile ''u1'' new_service))"
proof -
  let ?r = "fst (fresh_profile ''u1'' new_service)"
  let ?w = "snd (fresh_profile ''u1'' new_service)"
  have h: "''to_dict'' \<notin> set (map fst (inst_attrs (heap ?w ?r)))"
    by (simp add: fresh_profile_def default_profile_def new_profile_def now_isoformat_def
        new_service_def Let_def split_def)
  have u: "user_id (data (heap ?w ?r)) = ''u1''"
    by (simp add: fresh_profile_def default_profile_def new_profile_def now_isoformat_def
        new_service_def blank_profile_def Let_def split_def)
  show ?thesis
    using h save_profile_upserts [OF h] unfolding u by simp
qed

text \<open>
  The claim C5 has \<open>save_profile\<close> fail when the identity is empty. The code has no such
  check: \<open>save_profile(UserProfile(user_id=""))\<close> on a new service returns the success
  dictionary and stores the profile under the empty identity.
\<close>

theorem save_profile_empty_identity:
  "user_id (data (heap (snd (fresh_profile [] new_service)) (fst (fresh_profile [] new_service))))
     = []
   \<and> fst (save_profile (fst (fresh_profile [] new_service)) (snd (fresh_profile [] new_service)))
       = Inr [(''status'', VStr ''success''), (''user_id'', VStr []),
              (''message'', VStr ''Profile saved'')]
   \<and> profiles (saved_profile [] new_service) [] = Some 0
   \<and> length (stored_memories (saved_profile [] new_service) []) = 1"
  by (simp add: saved_profile_def fresh_profile_def default_profile_def new_profile_def
      now_isoformat_def new_service_def blank_profile_def save_profile_def to_dict_def
      add_memory_def generate_id_def stored_memories_def Let_def split_def)

text \<open>
  Claim C6. \<open>update_profile\<close> takes a key for recognized when \<open>hasattr\<close> holds, and
  \<open>hasattr\<close> holds for the methods of the class as well as for the fields. The key
  \<open>to_dict\<close> is no field; the update stores its value on the object in place of the
  method, and \<open>save_profile\<close> then raises \<open>TypeError\<close> at \<open>profile.to_dict()\<close>: the key is
  neither ignored nor is the memory entry of the profile written again.
\<close>

theorem update_profile_method_key:
  "profiles (saved_profile ''u1'' new_service) ''u1'' = Some 0
   \<and> ''to_dict'' \<notin> set field_names
   \<and> fst (update_profile ''u1'' [(''to_dict'', VStr ''x'')] (saved_profile ''u1'' new_service))
       = Inl (TypeError ''object is not callable'')
   \<and> stored_memories
         (snd (update_profile ''u1'' [(''to_dict'', VStr ''x'')] (saved_profile ''u1'' new_service)))
         ''u1''
       = stored_memories (saved_profile ''u1'' new_service) ''u1''
   \<and> inst_attrs (heap (snd (update_profile ''u1'' [(''to_dict'', VStr ''x'')]
                              (saved_profile ''u1'' new_service))) 0)
       = [(''to_dict'', VStr ''x'')]"
  by (simp add: saved_profile_def fresh_profile_def default_profile_def new_profile_def
      now_isoformat_def new_service_def blank_profile_def save_profile_def to_dict_def
      add_memory_def generate_id_def stored_memories_def update_profile_def hasattr_def
      setattr_def is_dunder_def field_names_def method_names_def str_fields_def
      int_fields_def float_fields_def Let_def split_def)




section \<open>Claims about the footprint history\<close>

text \<open>
  Claim C10. The argument \<open>days\<close> of \<open>get_footprint_history\<close> has no effect on its result:
  for every identity, category filter and state of the service, any two values of \<open>days\<close>
  give the same dictionary, so the same records, count, total, totals by category and trend.
  The function never reads the argument; no time window is applied.
\<close>

theorem days_is_ignored:
  "get_footprint_history uid category d1 w = get_footprint_history uid category d2 w"
  by (simp add: get_footprint_history_def)

end
